theory Spec2Isabelle
  imports Complex_Main "HOL-Library.Word"
begin

section \<open>The traversability-grid cost objective\<close>

text \<open>
  A shallow embedding of \<^verbatim>\<open>src/ompl/objectives/TravGridObjective.hpp\<close>: the class
  \<^verbatim>\<open>TravGridObjective\<close> with its two member functions \<^verbatim>\<open>stateCost\<close> and
  \<^verbatim>\<open>motionCost\<close>.
\<close>

subsection \<open>The C++ type double\<close>

text \<open>
  A \<^verbatim>\<open>double\<close> is a finite number, one of the two infinities, or a NaN. The operations
  below follow IEEE 754 on the special values: an infinity or a NaN is produced and
  propagated where the standard says so, a division by zero gives an infinity or a NaN and
  raises nothing, and every comparison with a NaN is false. On finite values the arithmetic
  is exact: rounding, overflow of a finite result to an infinity and underflow to zero are
  not part of the model, and zero carries no sign (it behaves as \<^verbatim>\<open>+0.0\<close>).
  This type carries the properties that rest on the control flow of the two functions: the
  errors, the sentinels, the comparison that forces a motion cost to infinity. The
  properties that rest on the values the arithmetic produces are stated over the second
  embedding below, in which a \<^verbatim>\<open>double\<close> is a binary64 value and every operation rounds.
\<close>

datatype double = Val real | PosInf | NegInf | NaN

fun dadd :: "double \<Rightarrow> double \<Rightarrow> double" where
  "dadd NaN _ = NaN"
| "dadd _ NaN = NaN"
| "dadd (Val a) (Val b) = Val (a + b)"
| "dadd PosInf NegInf = NaN"
| "dadd NegInf PosInf = NaN"
| "dadd PosInf _ = PosInf"
| "dadd _ PosInf = PosInf"
| "dadd NegInf _ = NegInf"
| "dadd _ NegInf = NegInf"

fun dneg :: "double \<Rightarrow> double" where
  "dneg (Val a) = Val (- a)"
| "dneg PosInf = NegInf"
| "dneg NegInf = PosInf"
| "dneg NaN = NaN"

definition dsub :: "double \<Rightarrow> double \<Rightarrow> double" where
  "dsub a b = dadd a (dneg b)"

text \<open>The infinity whose sign is that of the real number \<open>a\<close>; a NaN when \<open>a\<close> is zero.\<close>

definition signed_inf :: "real \<Rightarrow> double" where
  "signed_inf a = (if a = 0 then NaN else if 0 < a then PosInf else NegInf)"

fun dmul :: "double \<Rightarrow> double \<Rightarrow> double" where
  "dmul NaN _ = NaN"
| "dmul _ NaN = NaN"
| "dmul (Val a) (Val b) = Val (a * b)"
| "dmul (Val a) PosInf = signed_inf a"
| "dmul (Val a) NegInf = signed_inf (- a)"
| "dmul PosInf (Val b) = signed_inf b"
| "dmul NegInf (Val b) = signed_inf (- b)"
| "dmul PosInf PosInf = PosInf"
| "dmul PosInf NegInf = NegInf"
| "dmul NegInf PosInf = NegInf"
| "dmul NegInf NegInf = PosInf"

fun ddiv :: "double \<Rightarrow> double \<Rightarrow> double" where
  "ddiv NaN _ = NaN"
| "ddiv _ NaN = NaN"
| "ddiv (Val a) (Val b) = (if b = 0 then signed_inf a else Val (a / b))"
| "ddiv (Val a) PosInf = Val 0"
| "ddiv (Val a) NegInf = Val 0"
| "ddiv PosInf (Val b) = (if 0 \<le> b then PosInf else NegInf)"
| "ddiv NegInf (Val b) = (if 0 \<le> b then NegInf else PosInf)"
| "ddiv PosInf PosInf = NaN"
| "ddiv PosInf NegInf = NaN"
| "ddiv NegInf PosInf = NaN"
| "ddiv NegInf NegInf = NaN"

fun dsqrt :: "double \<Rightarrow> double" where
  "dsqrt (Val a) = (if a < 0 then NaN else Val (sqrt a))"
| "dsqrt PosInf = PosInf"
| "dsqrt NegInf = NaN"
| "dsqrt NaN = NaN"

fun dless :: "double \<Rightarrow> double \<Rightarrow> bool" where
  "dless NaN _ = False"
| "dless _ NaN = False"
| "dless (Val a) (Val b) = (a < b)"
| "dless (Val a) PosInf = True"
| "dless (Val a) NegInf = False"
| "dless PosInf _ = False"
| "dless NegInf (Val b) = True"
| "dless NegInf PosInf = True"
| "dless NegInf NegInf = False"

definition deq :: "double \<Rightarrow> double \<Rightarrow> bool" where
  "deq a b = (a \<noteq> NaN \<and> a = b)"


definition dge :: "double \<Rightarrow> double \<Rightarrow> bool" where
  "dge a b = (dless b a \<or> deq a b)"

text \<open>
  \<^verbatim>\<open>std::numeric_limits<double>::max()\<close>: the binary64 value with the largest
  exponent of a finite number and all 52 fraction bits set, \<^verbatim>\<open>(2 - 2^-52) * 2^1023\<close>.
  \<^verbatim>\<open>std::numeric_limits<double>::infinity()\<close> is \<open>PosInf\<close>.
\<close>

definition double_max :: real where
  "double_max = (2 ^ 53 - 1) * 2 ^ 971"


text \<open>
  The conversion \<^verbatim>\<open>int(...)\<close> of a 32-bit quantity: the value read as two's complement.
\<close>

definition to_int32 :: "int \<Rightarrow> int" where
  "to_int32 i = (i + 2 ^ 31) mod 2 ^ 32 - 2 ^ 31"

subsection \<open>Configuration, grid and states\<close>

text \<open>
  The headers that declare \<^verbatim>\<open>Config\<close>, \<^verbatim>\<open>envire::TraversabilityGrid\<close>,
  \<^verbatim>\<open>SherpaStateSpace\<close> and the state types of the planning library are not part of the
  sources. The records below hold the members and accessors that \<^verbatim>\<open>TravGridObjective\<close>
  reads, under the names it reads them by. \<open>ENV_OTHER\<close> stands for every value of the
  enumeration that the \<^verbatim>\<open>switch\<close> of \<^verbatim>\<open>stateCost\<close> does not name.
\<close>

datatype EnvType = ENV_XY | ENV_XYTHETA | ENV_SHERPA | ENV_OTHER

record Mobility =
  mSpeed :: double

record Config =
  mEnvType :: EnvType
  mMobility :: Mobility
  mNumFootprintClasses :: int
  mTimeToAdaptFootprint :: double
  mAdaptFootprintPenalty :: double

record TraversabilityClass =
  getDrivability :: double

record TraversabilityGrid =
  getCellSizeX :: nat
  getCellSizeY :: nat
  getScaleX :: double
  getTraversabilityClass :: "8 word \<Rightarrow> TraversabilityClass"

text \<open>\<^verbatim>\<open>TravData\<close>, a two-dimensional array of class numbers, read as \<^verbatim>\<open>data[y][x]\<close>.\<close>

type_synonym TravData = "nat \<Rightarrow> nat \<Rightarrow> 8 word"

text \<open>
  A planning state is one of the three state types that \<^verbatim>\<open>stateCost\<close> casts to: a real
  vector (\<^verbatim>\<open>values[0]\<close>, \<^verbatim>\<open>values[1]\<close>, ...), an SE2 state (x, y, yaw), or a Sherpa
  state (x, y, yaw and a footprint class). The footprint class is the integer the accessor
  \<^verbatim>\<open>getFootprintClass\<close> returns. The machine types of that accessor and of the member
  \<^verbatim>\<open>mNumFootprintClasses\<close> are declared in the absent headers; the model holds their
  values as integers, so that \<^verbatim>\<open>footprint_class + 1\<close> is the sum (a signed overflow is
  undefined in C++), and writes out the one conversion that the source spells,
  \<^verbatim>\<open>int(...)\<close> of the difference of two classes.
\<close>

datatype State =
    RealVectorState "double list"
  | SE2State double double double
  | SherpaState double double double int

text \<open>
  What a call throws. \<open>NoTravGrid\<close>, \<open>UnknownEnvironment\<close> and \<open>InvalidState\<close> are the
  three \<^verbatim>\<open>std::runtime_error\<close>s of \<^verbatim>\<open>stateCost\<close>. \<open>Undefined\<close> is not an exception:
  it marks the executions whose behaviour C++ leaves undefined (a state cast to a type it
  does not have, a null array pointer, a NaN converted to an array index).
\<close>

datatype error = NoTravGrid | UnknownEnvironment | InvalidState | Undefined

text \<open>The one diagnostic of the class: the \<^verbatim>\<open>LOG_WARN\<close> of an invalid state, with its x and y.\<close>

datatype log_entry = LOG_WARN_invalid_state double double

type_synonym 'a outcome = "log_entry list \<times> (error + 'a)"

text \<open>
  The objective: the three data members, and of the base class
  \<^verbatim>\<open>StateCostIntegralObjective\<close> the distance function of the space information it was
  constructed with.
\<close>

record TravGridObjective =
  mpTravGrid :: "TraversabilityGrid option"
  mpTravData :: "TravData option"
  mConfig :: Config
  si_distance :: "State \<Rightarrow> State \<Rightarrow> double"

definition setTravGrid ::
  "TraversabilityGrid option \<Rightarrow> TravData option \<Rightarrow> TravGridObjective \<Rightarrow> TravGridObjective" where
  "setTravGrid trav_grid trav_data obj = obj\<lparr>mpTravGrid := trav_grid, mpTravData := trav_data\<rparr>"

subsection \<open>stateCost\<close>

text \<open>
  The \<^verbatim>\<open>switch\<close> over \<^verbatim>\<open>mConfig.mEnvType\<close> (lines 78 to 105): x, y and the footprint class
  of the state, the latter 0 unless the environment is \<open>ENV_SHERPA\<close>.
\<close>

fun state_position :: "EnvType \<Rightarrow> State \<Rightarrow> error + (double \<times> double \<times> int)" where
  "state_position ENV_XY (RealVectorState (v0 # v1 # vs)) = Inr (v0, v1, 0)"
| "state_position ENV_XYTHETA (SE2State x y yaw) = Inr (x, y, 0)"
| "state_position ENV_SHERPA (SherpaState x y yaw footprint_class) = Inr (x, y, footprint_class)"
| "state_position ENV_OTHER s = Inl UnknownEnvironment"
| "state_position _ _ = Inl Undefined"

text \<open>A \<^verbatim>\<open>double\<close> used as an array index: truncated to an integer.\<close>

fun array_index :: "double \<Rightarrow> nat option" where
  "array_index (Val r) = (if 0 \<le> r then Some (nat \<lfloor>r\<rfloor>) else None)"
| "array_index _ = None"

definition stateCost :: "TravGridObjective \<Rightarrow> State \<Rightarrow> double outcome" where
  "stateCost obj s =
    (case mpTravGrid obj of
       None \<Rightarrow> ([], Inl NoTravGrid)
     | Some grid \<Rightarrow>
        (case state_position (mEnvType (mConfig obj)) s of
           Inl e \<Rightarrow> ([], Inl e)
         | Inr (x, y, footprint_class) \<Rightarrow>
            if dless x (Val 0) \<or> dge x (Val (real (getCellSizeX grid))) \<or>
               dless y (Val 0) \<or> dge y (Val (real (getCellSizeY grid)))
            then ([LOG_WARN_invalid_state x y], Inl InvalidState)
            else
              (case (mpTravData obj, array_index y, array_index x) of
                 (Some trav_data, Some iy, Some ix) \<Rightarrow>
                   let class_value = trav_data iy ix;
                       driveability = getDrivability (getTraversabilityClass grid class_value);
                       speed = mSpeed (mMobility (mConfig obj))
                   in if deq driveability (Val 0) \<or> deq speed (Val 0)
                      then ([], Inr (Val double_max))
                      else
                        let cost = ddiv (ddiv (getScaleX grid) speed) driveability
                        in if mEnvType (mConfig obj) = ENV_SHERPA
                           then ([], Inr (ddiv cost
                                   (ddiv (Val (real_of_int (footprint_class + 1)))
                                         (dadd (Val (real_of_int (mNumFootprintClasses (mConfig obj))))
                                               (Val 1)))))
                           else ([], Inr cost)
               | _ \<Rightarrow> ([], Inl Undefined))))"

subsection \<open>motionCost\<close>


text \<open>\<^verbatim>\<open>base::Vector2d(...).norm()\<close> of the vector \<open>(dx, dy)\<close>.\<close>

definition norm2d :: "double \<Rightarrow> double \<Rightarrow> double" where
  "norm2d dx dy = dsqrt (dadd (dmul dx dx) (dmul dy dy))"

text \<open>
  The local \<^verbatim>\<open>fp_time_sec\<close> (lines 154 to 156), for the footprint classes \<open>c1\<close> and \<open>c2\<close> of
  the two states: \<^verbatim>\<open>abs(int(c1 - c2)) / (double)mNumFootprintClasses * mTimeToAdaptFootprint\<close>.
\<close>

definition fp_time_sec :: "Config \<Rightarrow> int \<Rightarrow> int \<Rightarrow> double" where
  "fp_time_sec cfg c1 c2 =
     dmul (ddiv (Val (real_of_int \<bar>to_int32 (c1 - c2)\<bar>))
                (Val (real_of_int (mNumFootprintClasses cfg))))
          (mTimeToAdaptFootprint cfg)"

text \<open>
  The locals \<^verbatim>\<open>dist_m\<close> and \<^verbatim>\<open>mov_time_sec\<close> (lines 173 to 176), for the positions
  \<open>(x1, y1)\<close> and \<open>(x2, y2)\<close> of the two states.
\<close>

definition dist_m :: "TraversabilityGrid \<Rightarrow> double \<Rightarrow> double \<Rightarrow> double \<Rightarrow> double \<Rightarrow> double" where
  "dist_m grid x1 y1 x2 y2 = dmul (norm2d (dsub x1 x2) (dsub y1 y2)) (getScaleX grid)"

definition mov_time_sec ::
  "Config \<Rightarrow> TraversabilityGrid \<Rightarrow> double \<Rightarrow> double \<Rightarrow> double \<Rightarrow> double \<Rightarrow> double" where
  "mov_time_sec cfg grid x1 y1 x2 y2 = ddiv (dist_m grid x1 y1 x2 y2) (mSpeed (mMobility cfg))"


subsection \<open>Positions inside the grid\<close>



subsection \<open>A concrete objective\<close>

text \<open>
  The grid of the specification's examples: 10 by 10 cells, scale 1.0, drivability 0.5 for
  every class; a configuration with speed 2.0 and three footprint classes; and the planar
  distance between the positions of two states as the distance of the state space.
\<close>

definition example_grid :: TraversabilityGrid where
  "example_grid =
     \<lparr>getCellSizeX = 10, getCellSizeY = 10, getScaleX = Val 1,
      getTraversabilityClass = (\<lambda>c. \<lparr>getDrivability = Val (1 / 2)\<rparr>)\<rparr>"

definition example_config :: Config where
  "example_config =
     \<lparr>mEnvType = ENV_XYTHETA, mMobility = \<lparr>mSpeed = Val 2\<rparr>, mNumFootprintClasses = 3,
      mTimeToAdaptFootprint = Val 10, mAdaptFootprintPenalty = Val 20\<rparr>"

fun example_distance :: "State \<Rightarrow> State \<Rightarrow> double" where
  "example_distance (SE2State x1 y1 yaw1) (SE2State x2 y2 yaw2) = norm2d (dsub x1 x2) (dsub y1 y2)"
| "example_distance (SherpaState x1 y1 yaw1 c1) (SherpaState x2 y2 yaw2 c2) =
     norm2d (dsub x1 x2) (dsub y1 y2)"
| "example_distance _ _ = Val 0"

definition example_objective :: TravGridObjective where
  "example_objective =
     \<lparr>mpTravGrid = Some example_grid, mpTravData = Some (\<lambda>y x. 0),
      mConfig = example_config, si_distance = example_distance\<rparr>"

text \<open>The objective as the first constructor leaves it: no grid, no data.\<close>

definition unbound_objective :: TravGridObjective where
  "unbound_objective = setTravGrid None None example_objective"

text \<open>A variant of it for the footprint-aware environment \<open>ENV_SHERPA\<close>, with speed 0.\<close>

definition stopped_objective :: TravGridObjective where
  "stopped_objective =
     example_objective\<lparr>mConfig := example_config\<lparr>mEnvType := ENV_SHERPA, mMobility := \<lparr>mSpeed = Val 0\<rparr>\<rparr>\<rparr>"





section \<open>The objective in binary64 arithmetic\<close>

text \<open>
  The same two functions once more, with the arithmetic of the machine. A \<^verbatim>\<open>double\<close> is
  a value of the IEEE 754 binary64 format, and every operation returns the exact result
  rounded to the nearest value of the format, ties to the value with an even significand
  (the rounding mode a C++ program runs in unless it changes it): a result too large for
  the format becomes an infinity, a result too small becomes a subnormal number or a zero,
  and a zero has a sign. The functions below repeat \<open>stateCost\<close> and \<open>motionCost\<close> line by
  line over this type.
\<close>

subsection \<open>Rounding\<close>

text \<open>The integer nearest to \<open>r\<close>; of two integers equally near, the even one.\<close>

definition rhe :: "real \<Rightarrow> int" where
  "rhe r = (let f = \<lfloor>r\<rfloor> in
            if r - of_int f < 1 / 2 then f
            else if 1 / 2 < r - of_int f then f + 1
            else if even f then f else f + 1)"

text \<open>
  For a positive real \<open>x\<close>: the exponent of the power of two at or below \<open>x\<close>, and not less
  than the exponent \<open>-1022\<close> of the smallest normal number; the distance between
  neighbouring binary64 values there, which leaves 53 significant bits (fewer for a
  subnormal number); and \<open>x\<close> rounded to the nearest multiple of that distance. The last
  is \<open>2^1024\<close> or more when \<open>x\<close> rounds to no finite value.
\<close>

definition expo :: "real \<Rightarrow> int" where
  "expo x = max \<lfloor>log 2 x\<rfloor> (- 1022)"

definition ulp :: "real \<Rightarrow> real" where
  "ulp x = 2 powi (expo x - 52)"

definition rnd :: "real \<Rightarrow> real" where
  "rnd x = of_int (rhe (x / ulp x)) * ulp x"

subsection \<open>The values of the format\<close>

text \<open>
  \<open>Finite r\<close> is the finite value \<open>r\<close>, \<open>Finite 0\<close> being \<^verbatim>\<open>+0.0\<close>; \<open>MinusZero\<close> is
  \<^verbatim>\<open>-0.0\<close>. \<open>fl x\<close> is the binary64 value that the exact result \<open>x\<close> rounds to: an
  infinity on overflow, and a zero with the sign of \<open>x\<close> on underflow.
\<close>

datatype binary64 = Finite real | MinusZero | Infinity | MinusInfinity | NotANumber

definition fl :: "real \<Rightarrow> binary64" where
  "fl x =
     (if x = 0 then Finite 0
      else if 0 < x then (if 2 powi 1024 \<le> rnd x then Infinity else Finite (rnd x))
      else (if 2 powi 1024 \<le> rnd (- x) then MinusInfinity
            else if rnd (- x) = 0 then MinusZero
            else Finite (- rnd (- x))))"

text \<open>
  The comparisons \<^verbatim>\<open><\<close>, \<^verbatim>\<open>==\<close>, \<^verbatim>\<open>>\<close> and \<^verbatim>\<open>>=\<close>: false whenever an operand is a NaN,
  and the two zeros are equal.
\<close>

fun bless :: "binary64 \<Rightarrow> binary64 \<Rightarrow> bool" where
  "bless NotANumber _ = False"
| "bless _ NotANumber = False"
| "bless MinusInfinity MinusInfinity = False"
| "bless MinusInfinity _ = True"
| "bless _ MinusInfinity = False"
| "bless Infinity _ = False"
| "bless _ Infinity = True"
| "bless (Finite a) (Finite b) = (a < b)"
| "bless (Finite a) MinusZero = (a < 0)"
| "bless MinusZero (Finite b) = (0 < b)"
| "bless MinusZero MinusZero = False"

definition beq :: "binary64 \<Rightarrow> binary64 \<Rightarrow> bool" where
  "beq a b = (a \<noteq> NotANumber \<and> b \<noteq> NotANumber \<and> \<not> bless a b \<and> \<not> bless b a)"

definition bgt :: "binary64 \<Rightarrow> binary64 \<Rightarrow> bool" where
  "bgt a b = bless b a"

definition bge :: "binary64 \<Rightarrow> binary64 \<Rightarrow> bool" where
  "bge a b = (bless b a \<or> beq a b)"

text \<open>A number that is not negative, or positive infinity; neither \<^verbatim>\<open>-0.0\<close> nor a NaN.\<close>

definition nonneg :: "binary64 \<Rightarrow> bool" where
  "nonneg a = (case a of Finite r \<Rightarrow> 0 \<le> r | Infinity \<Rightarrow> True | _ \<Rightarrow> False)"

text \<open>Either of the two zeros.\<close>

definition is_zero :: "binary64 \<Rightarrow> bool" where
  "is_zero a = (a = Finite 0 \<or> a = MinusZero)"

text \<open>
  \<open>Finite r\<close> is a value of the format when rounding leaves \<open>r\<close> as it is; every result
  of \<open>fl\<close> is one.
\<close>

definition is_binary64 :: "binary64 \<Rightarrow> bool" where
  "is_binary64 a = (case a of Finite r \<Rightarrow> fl r = Finite r | _ \<Rightarrow> True)"

subsection \<open>The operations\<close>

text \<open>
  The sign bit of a value and, for a finite value, the number it stands for; the zero and
  the infinity of a given sign.
\<close>

fun sign_bit :: "binary64 \<Rightarrow> bool" where
  "sign_bit (Finite r) = (r < 0)"
| "sign_bit MinusZero = True"
| "sign_bit Infinity = False"
| "sign_bit MinusInfinity = True"
| "sign_bit NotANumber = False"

fun finite_value :: "binary64 \<Rightarrow> real option" where
  "finite_value (Finite r) = Some r"
| "finite_value MinusZero = Some 0"
| "finite_value _ = None"

definition zero_of :: "bool \<Rightarrow> binary64" where
  "zero_of neg = (if neg then MinusZero else Finite 0)"

definition inf_of :: "bool \<Rightarrow> binary64" where
  "inf_of neg = (if neg then MinusInfinity else Infinity)"

text \<open>
  Addition, negation, subtraction, multiplication, division and square root. The special
  cases are those of IEEE 754: a NaN operand gives a NaN; infinities of opposite signs add
  to a NaN; an exact sum of zero is \<^verbatim>\<open>+0.0\<close> unless both operands are negative zeros; the
  sign of a product or quotient is the exclusive or of the signs of the operands; zero
  times infinity, zero by zero and infinity by infinity are NaNs; a nonzero number divided
  by a zero is the infinity of that sign, and nothing is raised. Every other result is the
  exact one, rounded by \<open>fl\<close>.
\<close>

definition badd :: "binary64 \<Rightarrow> binary64 \<Rightarrow> binary64" where
  "badd a b =
     (if a = NotANumber \<or> b = NotANumber then NotANumber
      else case (finite_value a, finite_value b) of
        (Some x, Some y) \<Rightarrow> if x + y = 0 then zero_of (sign_bit a \<and> sign_bit b) else fl (x + y)
      | (Some x, None) \<Rightarrow> b
      | (None, Some y) \<Rightarrow> a
      | (None, None) \<Rightarrow> if a = b then a else NotANumber)"

fun bneg :: "binary64 \<Rightarrow> binary64" where
  "bneg (Finite r) = (if r = 0 then MinusZero else Finite (- r))"
| "bneg MinusZero = Finite 0"
| "bneg Infinity = MinusInfinity"
| "bneg MinusInfinity = Infinity"
| "bneg NotANumber = NotANumber"

definition bsub :: "binary64 \<Rightarrow> binary64 \<Rightarrow> binary64" where
  "bsub a b = badd a (bneg b)"

definition bmul :: "binary64 \<Rightarrow> binary64 \<Rightarrow> binary64" where
  "bmul a b =
     (if a = NotANumber \<or> b = NotANumber then NotANumber
      else case (finite_value a, finite_value b) of
        (Some x, Some y) \<Rightarrow>
          if x * y = 0 then zero_of (sign_bit a \<noteq> sign_bit b) else fl (x * y)
      | (Some x, None) \<Rightarrow> if x = 0 then NotANumber else inf_of (sign_bit a \<noteq> sign_bit b)
      | (None, Some y) \<Rightarrow> if y = 0 then NotANumber else inf_of (sign_bit a \<noteq> sign_bit b)
      | (None, None) \<Rightarrow> inf_of (sign_bit a \<noteq> sign_bit b))"

definition bdiv :: "binary64 \<Rightarrow> binary64 \<Rightarrow> binary64" where
  "bdiv a b =
     (if a = NotANumber \<or> b = NotANumber then NotANumber
      else case (finite_value a, finite_value b) of
        (Some x, Some y) \<Rightarrow>
          if y = 0 then (if x = 0 then NotANumber else inf_of (sign_bit a \<noteq> sign_bit b))
          else if x = 0 then zero_of (sign_bit a \<noteq> sign_bit b)
          else fl (x / y)
      | (Some x, None) \<Rightarrow> zero_of (sign_bit a \<noteq> sign_bit b)
      | (None, Some y) \<Rightarrow> inf_of (sign_bit a \<noteq> sign_bit b)
      | (None, None) \<Rightarrow> NotANumber)"

fun bsqrt :: "binary64 \<Rightarrow> binary64" where
  "bsqrt (Finite r) = (if r < 0 then NotANumber else fl (sqrt r))"
| "bsqrt MinusZero = MinusZero"
| "bsqrt Infinity = Infinity"
| "bsqrt MinusInfinity = NotANumber"
| "bsqrt NotANumber = NotANumber"

text \<open>The conversions of an integer and of a \<^verbatim>\<open>size_t\<close> to \<^verbatim>\<open>double\<close>.\<close>

definition b_of_int :: "int \<Rightarrow> binary64" where
  "b_of_int i = fl (real_of_int i)"

definition b_of_nat :: "nat \<Rightarrow> binary64" where
  "b_of_nat n = fl (real n)"

subsection \<open>Configuration, grid and states in binary64\<close>

text \<open>
  The records of the first embedding, with binary64 values where they hold a
  \<^verbatim>\<open>double\<close>. The environment type, the array of class numbers and the errors are those
  of the first embedding.
\<close>

record Mobility64 =
  mSpeed64 :: binary64

record Config64 =
  mEnvType64 :: EnvType
  mMobility64 :: Mobility64
  mNumFootprintClasses64 :: int
  mTimeToAdaptFootprint64 :: binary64
  mAdaptFootprintPenalty64 :: binary64

record TraversabilityClass64 =
  getDrivability64 :: binary64

record TraversabilityGrid64 =
  getCellSizeX64 :: nat
  getCellSizeY64 :: nat
  getScaleX64 :: binary64
  getTraversabilityClass64 :: "8 word \<Rightarrow> TraversabilityClass64"

datatype State64 =
    RealVectorState64 "binary64 list"
  | SE2State64 binary64 binary64 binary64
  | SherpaState64 binary64 binary64 binary64 int

datatype log_entry64 = LOG_WARN_invalid_state64 binary64 binary64

type_synonym 'a outcome64 = "log_entry64 list \<times> (error + 'a)"

record TravGridObjective64 =
  mpTravGrid64 :: "TraversabilityGrid64 option"
  mpTravData64 :: "TravData option"
  mConfig64 :: Config64
  si_distance64 :: "State64 \<Rightarrow> State64 \<Rightarrow> binary64"

subsection \<open>stateCost in binary64\<close>

text \<open>
  The \<^verbatim>\<open>switch\<close> over \<^verbatim>\<open>mConfig.mEnvType\<close> (lines 78 to 105), and a \<^verbatim>\<open>double\<close> used as
  an array index: truncated to an integer, so that \<^verbatim>\<open>-0.0\<close> is the index 0.
\<close>

fun state_position64 :: "EnvType \<Rightarrow> State64 \<Rightarrow> error + (binary64 \<times> binary64 \<times> int)" where
  "state_position64 ENV_XY (RealVectorState64 (v0 # v1 # vs)) = Inr (v0, v1, 0)"
| "state_position64 ENV_XYTHETA (SE2State64 x y yaw) = Inr (x, y, 0)"
| "state_position64 ENV_SHERPA (SherpaState64 x y yaw footprint_class) = Inr (x, y, footprint_class)"
| "state_position64 ENV_OTHER s = Inl UnknownEnvironment"
| "state_position64 _ _ = Inl Undefined"

fun array_index64 :: "binary64 \<Rightarrow> nat option" where
  "array_index64 (Finite r) = (if 0 \<le> r then Some (nat \<lfloor>r\<rfloor>) else None)"
| "array_index64 MinusZero = Some 0"
| "array_index64 _ = None"

text \<open>
  \<^verbatim>\<open>stateCost\<close> (lines 69 to 134). The bounds check compares the coordinates with the
  numbers of cells converted to \<^verbatim>\<open>double\<close>; the sentinel is
  \<^verbatim>\<open>std::numeric_limits<double>::max()\<close>; the cost is \<^verbatim>\<open>(getScaleX() / mSpeed) / driveability\<close>,
  two divisions that each round; and in \<open>ENV_SHERPA\<close> it is divided by
  \<^verbatim>\<open>(footprint_class + 1) / ((double)mNumFootprintClasses + 1)\<close>, a quotient that rounds
  before the division by it rounds again.
\<close>

definition stateCost64 :: "TravGridObjective64 \<Rightarrow> State64 \<Rightarrow> binary64 outcome64" where
  "stateCost64 obj s =
    (case mpTravGrid64 obj of
       None \<Rightarrow> ([], Inl NoTravGrid)
     | Some grid \<Rightarrow>
        (case state_position64 (mEnvType64 (mConfig64 obj)) s of
           Inl e \<Rightarrow> ([], Inl e)
         | Inr (x, y, footprint_class) \<Rightarrow>
            if bless x (Finite 0) \<or> bge x (b_of_nat (getCellSizeX64 grid)) \<or>
               bless y (Finite 0) \<or> bge y (b_of_nat (getCellSizeY64 grid))
            then ([LOG_WARN_invalid_state64 x y], Inl InvalidState)
            else
              (case (mpTravData64 obj, array_index64 y, array_index64 x) of
                 (Some trav_data, Some iy, Some ix) \<Rightarrow>
                   let class_value = trav_data iy ix;
                       driveability = getDrivability64 (getTraversabilityClass64 grid class_value);
                       speed = mSpeed64 (mMobility64 (mConfig64 obj))
                   in if beq driveability (Finite 0) \<or> beq speed (Finite 0)
                      then ([], Inr (Finite double_max))
                      else
                        let cost = bdiv (bdiv (getScaleX64 grid) speed) driveability
                        in if mEnvType64 (mConfig64 obj) = ENV_SHERPA
                           then ([], Inr (bdiv cost
                                   (bdiv (b_of_int (footprint_class + 1))
                                         (badd (b_of_int (mNumFootprintClasses64 (mConfig64 obj)))
                                               (Finite 1)))))
                           else ([], Inr cost)
               | _ \<Rightarrow> ([], Inl Undefined))))"

subsection \<open>motionCost in binary64\<close>

text \<open>
  Modelled from the spec: \<^verbatim>\<open>ompl::base::StateCostIntegralObjective::motionCost\<close>, the
  base-class function that \<^verbatim>\<open>motionCost\<close> calls first, belongs to the planning library
  and is not part of the sources. As in the first embedding it is the mean of the two
  states' costs, scaled by the distance between the states (specification 4.3, step 1),
  here computed as the library computes it in \<^verbatim>\<open>double\<close>: the sum of the two costs, the
  half of it, and the product with the distance, each rounded.
\<close>

definition base_motionCost64 ::
  "TravGridObjective64 \<Rightarrow> State64 \<Rightarrow> State64 \<Rightarrow> binary64 outcome64" where
  "base_motionCost64 obj s1 s2 =
    (case stateCost64 obj s1 of
       (log1, Inl e) \<Rightarrow> (log1, Inl e)
     | (log1, Inr c1) \<Rightarrow>
        (case stateCost64 obj s2 of
           (log2, Inl e) \<Rightarrow> (log1 @ log2, Inl e)
         | (log2, Inr c2) \<Rightarrow>
             (log1 @ log2, Inr (bmul (bdiv (badd c1 c2) (Finite 2)) (si_distance64 obj s1 s2)))))"

text \<open>
  \<^verbatim>\<open>base::Vector2d(...).norm()\<close>, the locals \<^verbatim>\<open>fp_time_sec\<close> (lines 154 to 156),
  \<^verbatim>\<open>dist_m\<close> and \<^verbatim>\<open>mov_time_sec\<close> (lines 173 to 176), and \<^verbatim>\<open>motionCost\<close> itself (lines
  136 to 198), whose last comparison replaces the cost by
  \<^verbatim>\<open>std::numeric_limits<double>::infinity()\<close>.
\<close>

definition norm2d64 :: "binary64 \<Rightarrow> binary64 \<Rightarrow> binary64" where
  "norm2d64 dx dy = bsqrt (badd (bmul dx dx) (bmul dy dy))"

definition fp_time_sec64 :: "Config64 \<Rightarrow> int \<Rightarrow> int \<Rightarrow> binary64" where
  "fp_time_sec64 cfg c1 c2 =
     bmul (bdiv (b_of_int \<bar>to_int32 (c1 - c2)\<bar>) (b_of_int (mNumFootprintClasses64 cfg)))
          (mTimeToAdaptFootprint64 cfg)"

definition dist_m64 ::
  "TraversabilityGrid64 \<Rightarrow> binary64 \<Rightarrow> binary64 \<Rightarrow> binary64 \<Rightarrow> binary64 \<Rightarrow> binary64" where
  "dist_m64 grid x1 y1 x2 y2 = bmul (norm2d64 (bsub x1 x2) (bsub y1 y2)) (getScaleX64 grid)"

definition mov_time_sec64 ::
  "Config64 \<Rightarrow> TraversabilityGrid64 \<Rightarrow> binary64 \<Rightarrow> binary64 \<Rightarrow> binary64 \<Rightarrow> binary64 \<Rightarrow> binary64" where
  "mov_time_sec64 cfg grid x1 y1 x2 y2 = bdiv (dist_m64 grid x1 y1 x2 y2) (mSpeed64 (mMobility64 cfg))"

definition motionCost64 ::
  "TravGridObjective64 \<Rightarrow> State64 \<Rightarrow> State64 \<Rightarrow> binary64 outcome64" where
  "motionCost64 obj s1 s2 =
    (case base_motionCost64 obj s1 s2 of
       (logged, Inl e) \<Rightarrow> (logged, Inl e)
     | (logged, Inr cost) \<Rightarrow>
        (case mEnvType64 (mConfig64 obj) of
           ENV_SHERPA \<Rightarrow>
             (case (s1, s2, mpTravGrid64 obj) of
                (SherpaState64 x1 y1 yaw1 c1, SherpaState64 x2 y2 yaw2 c2, Some grid) \<Rightarrow>
                  let fp = fp_time_sec64 (mConfig64 obj) c1 c2;
                      cost_v = badd cost fp;
                      cost_v = (if bgt fp (Finite 0)
                                then badd cost_v (mAdaptFootprintPenalty64 (mConfig64 obj))
                                else cost_v);
                      mov = mov_time_sec64 (mConfig64 obj) grid x1 y1 x2 y2
                  in if bgt fp mov then (logged, Inr Infinity) else (logged, Inr cost_v)
              | _ \<Rightarrow> (logged, Inl Undefined))
         | _ \<Rightarrow> (logged, Inr cost)))"

subsection \<open>Positions inside the grid, in binary64\<close>

text \<open>
  A coordinate lies inside when it is a finite number in \<open>[0, n)\<close> for the number \<open>n\<close> of
  cells along its axis; the array index it is truncated to.
\<close>

fun in_range64 :: "binary64 \<Rightarrow> nat \<Rightarrow> bool" where
  "in_range64 (Finite r) n = (0 \<le> r \<and> r < real n)"
| "in_range64 MinusZero n = (0 < n)"
| "in_range64 _ n = False"

fun cell_index :: "binary64 \<Rightarrow> nat" where
  "cell_index (Finite r) = nat \<lfloor>r\<rfloor>"
| "cell_index _ = 0"

subsection \<open>Concrete objectives in binary64\<close>

text \<open>
  The grid of the specification's examples (10 by 10 cells) and the planar distance between
  the positions of two states, as in the first embedding; and the objective on that grid
  for a given environment, scale, drivability of every class, speed and number of footprint
  classes, with 10 seconds to adapt the footprint and a penalty of 20.
\<close>

definition example_grid64 :: TraversabilityGrid64 where
  "example_grid64 =
     \<lparr>getCellSizeX64 = 10, getCellSizeY64 = 10, getScaleX64 = Finite 1,
      getTraversabilityClass64 = (\<lambda>c. \<lparr>getDrivability64 = Finite (1 / 2)\<rparr>)\<rparr>"

fun example_distance64 :: "State64 \<Rightarrow> State64 \<Rightarrow> binary64" where
  "example_distance64 (SE2State64 x1 y1 yaw1) (SE2State64 x2 y2 yaw2) =
     norm2d64 (bsub x1 x2) (bsub y1 y2)"
| "example_distance64 (SherpaState64 x1 y1 yaw1 c1) (SherpaState64 x2 y2 yaw2 c2) =
     norm2d64 (bsub x1 x2) (bsub y1 y2)"
| "example_distance64 _ _ = Finite 0"

definition objective64 ::
  "EnvType \<Rightarrow> binary64 \<Rightarrow> binary64 \<Rightarrow> binary64 \<Rightarrow> int \<Rightarrow> TravGridObjective64" where
  "objective64 env scale drivability speed n =
     \<lparr>mpTravGrid64 = Some (example_grid64\<lparr>getScaleX64 := scale,
         getTraversabilityClass64 := (\<lambda>c. \<lparr>getDrivability64 = drivability\<rparr>)\<rparr>),
      mpTravData64 = Some (\<lambda>y x. 0),
      mConfig64 = \<lparr>mEnvType64 = env, mMobility64 = \<lparr>mSpeed64 = speed\<rparr>,
                   mNumFootprintClasses64 = n, mTimeToAdaptFootprint64 = Finite 10,
                   mAdaptFootprintPenalty64 = Finite 20\<rparr>,
      si_distance64 = example_distance64\<rparr>"


section \<open>Properties\<close>

subsection \<open>The double operations\<close>




lemma to_int32_0: "to_int32 0 = 0"
  by (simp add: to_int32_def)

lemma to_int32_id: "- (2 ^ 31) \<le> i \<Longrightarrow> i < 2 ^ 31 \<Longrightarrow> to_int32 i = i"
  by (simp add: to_int32_def)

subsection \<open>The bounds check\<close>


lemma stateCost_in_bounds:
  assumes "mpTravGrid obj = Some grid" "mpTravData obj = Some trav_data"
    and "state_position (mEnvType (mConfig obj)) s = Inr (Val x, Val y, fc)"
    and "0 \<le> x" "x < real (getCellSizeX grid)" "0 \<le> y" "y < real (getCellSizeY grid)"
  shows "stateCost obj s =
    ([], Inr (let driveability = getDrivability (getTraversabilityClass grid
                                   (trav_data (nat \<lfloor>y\<rfloor>) (nat \<lfloor>x\<rfloor>)));
                  speed = mSpeed (mMobility (mConfig obj))
              in if deq driveability (Val 0) \<or> deq speed (Val 0) then Val double_max
                 else if mEnvType (mConfig obj) = ENV_SHERPA
                 then ddiv (ddiv (ddiv (getScaleX grid) speed) driveability)
                        (ddiv (Val (real_of_int (fc + 1)))
                              (Val (real_of_int (mNumFootprintClasses (mConfig obj)) + 1)))
                 else ddiv (ddiv (getScaleX grid) speed) driveability))"
  using assms by (simp add: stateCost_def dge_def deq_def Let_def)


subsection \<open>Errors of stateCost\<close>

text \<open>
  C6. With no traversability grid bound, every call of \<open>stateCost\<close> throws the no-grid
  error, whatever the state and the configured environment are (also a state of the wrong
  type and an unknown environment), and nothing is logged.
\<close>

theorem stateCost_no_grid:
  "mpTravGrid obj = None \<Longrightarrow> stateCost obj s = ([], Inl NoTravGrid)"
  by (simp add: stateCost_def)

theorem stateCost_no_grid_witness:
  "mpTravGrid unbound_objective = None \<and>
   stateCost unbound_objective (SE2State (Val 3) (Val 4) (Val 0)) = ([], Inl NoTravGrid)"
proof -
  have h: "mpTravGrid unbound_objective = None"
    by (simp add: unbound_objective_def setTravGrid_def)
  show ?thesis
    using h stateCost_no_grid [OF h, of "SE2State (Val 3) (Val 4) (Val 0)"] by simp
qed




subsection \<open>The cost of a cell\<close>


lemma stateCost_sentinel:
  assumes "mpTravGrid obj = Some grid" "mpTravData obj = Some trav_data"
    and "state_position (mEnvType (mConfig obj)) s = Inr (Val x, Val y, fc)"
    and "0 \<le> x" "x < real (getCellSizeX grid)" "0 \<le> y" "y < real (getCellSizeY grid)"
    and "getDrivability (getTraversabilityClass grid (trav_data (nat \<lfloor>y\<rfloor>) (nat \<lfloor>x\<rfloor>))) = Val 0
         \<or> mSpeed (mMobility (mConfig obj)) = Val 0"
  shows "stateCost obj s = ([], Inr (Val double_max))"
  using assms by (auto simp add: stateCost_in_bounds deq_def)



text \<open>
  C4. At a position inside the grid, if the drivability of the cell is 0 or the configured
  speed is 0, \<open>stateCost\<close> returns the sentinel \<^verbatim>\<open>numeric_limits<double>::max()\<close>: a cost,
  not an exception, and not a traversal time computed from scale, speed and drivability.
\<close>

theorem stateCost_zero_drivability_or_speed:
  assumes "mpTravGrid obj = Some grid" "mpTravData obj = Some trav_data"
    and "state_position (mEnvType (mConfig obj)) s = Inr (Val x, Val y, fc)"
    and "0 \<le> x" "x < real (getCellSizeX grid)" "0 \<le> y" "y < real (getCellSizeY grid)"
    and "getDrivability (getTraversabilityClass grid (trav_data (nat \<lfloor>y\<rfloor>) (nat \<lfloor>x\<rfloor>))) = Val 0
         \<or> mSpeed (mMobility (mConfig obj)) = Val 0"
  shows "stateCost obj s = ([], Inr (Val double_max))"
  using assms by (rule stateCost_sentinel)

theorem stateCost_zero_drivability_or_speed_witness:
  "mpTravGrid stopped_objective = Some example_grid \<and>
   mpTravData stopped_objective = Some (\<lambda>y x. 0) \<and>
   state_position (mEnvType (mConfig stopped_objective)) (SherpaState (Val 3) (Val 4) (Val 0) 1)
     = Inr (Val 3, Val 4, 1) \<and>
   (0::real) \<le> 3 \<and> 3 < real (getCellSizeX example_grid) \<and>
   (0::real) \<le> 4 \<and> 4 < real (getCellSizeY example_grid) \<and>
   mSpeed (mMobility (mConfig stopped_objective)) = Val 0 \<and>
   stateCost stopped_objective (SherpaState (Val 3) (Val 4) (Val 0) 1) = ([], Inr (Val double_max))"
  using stateCost_zero_drivability_or_speed [where obj = stopped_objective and grid = example_grid
      and trav_data = "\<lambda>y x. 0" and s = "SherpaState (Val 3) (Val 4) (Val 0) 1"
      and x = 3 and y = 4 and fc = 1]
  by (simp add: stopped_objective_def example_objective_def example_grid_def example_config_def)

subsection \<open>The two times of motionCost\<close>

lemma fp_time_sec_real:
  assumes "mNumFootprintClasses cfg \<noteq> 0" "mTimeToAdaptFootprint cfg = Val t"
    and "\<bar>c1 - c2\<bar> < 2 ^ 31"
  shows "fp_time_sec cfg c1 c2
           = Val (real_of_int \<bar>c1 - c2\<bar> / real_of_int (mNumFootprintClasses cfg) * t)"
proof -
  have "to_int32 (c1 - c2) = c1 - c2"
    using assms(3) by (intro to_int32_id) linarith+
  then show ?thesis
    using assms(1,2) by (simp add: fp_time_sec_def)
qed

lemma mov_time_sec_real:
  assumes "getScaleX grid = Val scale" "mSpeed (mMobility cfg) = Val v" "v \<noteq> 0"
  shows "mov_time_sec cfg grid (Val x1) (Val y1) (Val x2) (Val y2)
           = Val (sqrt ((x1 - x2) * (x1 - x2) + (y1 - y2) * (y1 - y2)) * scale / v)"
proof -
  have "\<not> (x1 - x2) * (x1 - x2) + (y1 - y2) * (y1 - y2) < 0"
    by (simp add: not_less)
  then show ?thesis
    using assms by (simp add: mov_time_sec_def dist_m_def norm2d_def dsub_def)
qed

subsection \<open>motionCost in the footprint-aware environment\<close>







subsection \<open>The sentinels\<close>



section \<open>Properties in binary64 arithmetic\<close>

text \<open>
  The properties that depend on what the arithmetic returns: the monotonicity and the
  range of the cost of a cell, the effect of the footprint class on it, and the motion cost
  for equal footprint classes and for speed 0.
\<close>

subsection \<open>Rounding to the nearest integer\<close>

lemma rhe_of_int: "rhe (of_int n) = n"
  by (simp add: rhe_def)

lemma rhe_bounds: "\<lfloor>r\<rfloor> \<le> rhe r" "rhe r \<le> \<lfloor>r\<rfloor> + 1"
  by (simp_all add: rhe_def Let_def)

lemma rhe_mono:
  assumes "a \<le> b"
  shows "rhe a \<le> rhe b"
proof (cases "\<lfloor>a\<rfloor> = \<lfloor>b\<rfloor>")
  case True
  have "a - of_int \<lfloor>a\<rfloor> \<le> b - of_int \<lfloor>b\<rfloor>"
    using assms True by simp
  then show ?thesis
    using True by (auto simp: rhe_def Let_def)
next
  case False
  have "\<lfloor>a\<rfloor> \<le> \<lfloor>b\<rfloor>" using assms by (rule floor_mono)
  with False have "\<lfloor>a\<rfloor> + 1 \<le> \<lfloor>b\<rfloor>" by simp
  with rhe_bounds(2) [of a] rhe_bounds(1) [of b] show ?thesis by linarith
qed

lemma rhe_ge: "of_int n \<le> a \<Longrightarrow> n \<le> rhe a"
  using rhe_mono [of "of_int n" a] by (simp add: rhe_of_int)

lemma rhe_le: "a \<le> of_int n \<Longrightarrow> rhe a \<le> n"
  using rhe_mono [of a "of_int n"] by (simp add: rhe_of_int)

lemma rhe_neg_iff: "rhe a < 0 \<Longrightarrow> a < 0"
  using rhe_ge [of 0 a] by (cases "0 \<le> a") auto

subsection \<open>Rounding to 53 bits\<close>


lemma floor_log2_bounds:
  assumes "0 < x"
  shows "2 powi \<lfloor>log 2 x\<rfloor> \<le> x" "x < 2 powi (\<lfloor>log 2 x\<rfloor> + 1)"
proof -
  have "2 powr (real_of_int \<lfloor>log 2 x\<rfloor> + 1) = 2 powi (\<lfloor>log 2 x\<rfloor> + 1)"
    using powr_real_of_int' [of 2 "\<lfloor>log 2 x\<rfloor> + 1"] by simp
  then show "2 powi \<lfloor>log 2 x\<rfloor> \<le> x" "x < 2 powi (\<lfloor>log 2 x\<rfloor> + 1)"
    using assms floor_log_eq_powr_iff [of x 2 "\<lfloor>log 2 x\<rfloor>"]
    by (simp_all add: powr_real_of_int')
qed



lemma expo_ge: "- 1022 \<le> expo x"
  by (simp add: expo_def)

lemma ulp_pos: "0 < ulp x"
  by (simp add: ulp_def)

lemma expo_upper: "0 < x \<Longrightarrow> x < 2 powi (expo x + 1)"
proof -
  assume x: "0 < x"
  have "(2::real) powi (\<lfloor>log 2 x\<rfloor> + 1) \<le> 2 powi (expo x + 1)"
    by (intro power_int_increasing) (simp_all add: expo_def)
  with floor_log2_bounds(2) [OF x] show ?thesis by linarith
qed

lemma pow2_split: "(2::real) powi (e + 1) = 2 ^ 53 * 2 powi (e - 52)"
proof -
  have "e + 1 = 53 + (e - 52)" by simp
  then have "(2::real) powi (e + 1) = 2 powi (53 + (e - 52))" by (rule arg_cong)
  also have "\<dots> = 2 powi 53 * 2 powi (e - 52)"
    by (subst power_int_add) simp_all
  finally show ?thesis by simp
qed

lemma pow2_split': "(2::real) powi e = 2 ^ 52 * 2 powi (e - 52)"
proof -
  have "e = 52 + (e - 52)" by simp
  then have "(2::real) powi e = 2 powi (52 + (e - 52))" by (rule arg_cong)
  also have "\<dots> = 2 powi 52 * 2 powi (e - 52)"
    by (subst power_int_add) simp_all
  finally show ?thesis by simp
qed

lemma rnd_upper:
  assumes "0 < x"
  shows "rnd x \<le> 2 powi (expo x + 1)"
proof -
  have "x / ulp x \<le> 2 ^ 53"
    using expo_upper [OF assms] ulp_pos [of x]
    by (simp add: pos_divide_le_eq pow2_split [of "expo x"] ulp_def)
  then have "x / ulp x \<le> of_int (2 ^ 53)" by simp
  then have "rhe (x / ulp x) \<le> 2 ^ 53" by (rule rhe_le)
  then have "real_of_int (rhe (x / ulp x)) \<le> 2 ^ 53"
    by (metis of_int_le_iff of_int_numeral of_int_power)
  then show ?thesis
    using ulp_pos [of x]
    by (simp add: rnd_def pow2_split [of "expo x"] ulp_def mult_right_mono)
qed

lemma rnd_lower:
  assumes "0 < x" "2 powi (expo x) \<le> x"
  shows "2 powi (expo x) \<le> rnd x"
proof -
  have "2 ^ 52 \<le> x / ulp x"
    using assms(2) ulp_pos [of x]
    by (simp add: pos_le_divide_eq pow2_split' [of "expo x"] ulp_def)
  then have "of_int (2 ^ 52) \<le> x / ulp x" by simp
  then have "2 ^ 52 \<le> rhe (x / ulp x)" by (rule rhe_ge)
  then have "2 ^ 52 \<le> real_of_int (rhe (x / ulp x))"
    by (metis of_int_le_iff of_int_numeral of_int_power)
  then show ?thesis
    using ulp_pos [of x]
    by (simp add: rnd_def pow2_split' [of "expo x"] ulp_def mult_right_mono)
qed

lemma rnd_nonneg: "0 < x \<Longrightarrow> 0 \<le> rnd x"
proof -
  assume "0 < x"
  then have "of_int 0 \<le> x / ulp x" using ulp_pos [of x] by simp
  then have "0 \<le> rhe (x / ulp x)" by (rule rhe_ge)
  then show ?thesis using ulp_pos [of x] by (simp add: rnd_def)
qed

lemma expo_mono:
  assumes "0 < x" "x \<le> y"
  shows "expo x \<le> expo y"
proof -
  have "log 2 x \<le> log 2 y" using assms by simp
  then have "\<lfloor>log 2 x\<rfloor> \<le> \<lfloor>log 2 y\<rfloor>" by (rule floor_mono)
  then show ?thesis by (simp add: expo_def)
qed

lemma expo_normal_lower:
  assumes "0 < y" "- 1022 < expo y"
  shows "2 powi (expo y) \<le> y"
proof -
  have "expo y = \<lfloor>log 2 y\<rfloor>" using assms(2) by (simp add: expo_def max_def split: if_splits)
  with floor_log2_bounds(1) [OF assms(1)] show ?thesis by simp
qed

lemma rnd_mono:
  assumes "0 < x" "x \<le> y"
  shows "rnd x \<le> rnd y"
proof (cases "expo x = expo y")
  case True
  then have u: "ulp x = ulp y" by (simp add: ulp_def)
  have "x / ulp y \<le> y / ulp y"
    using assms(2) ulp_pos [of y] by (simp add: divide_right_mono)
  then have "rhe (x / ulp y) \<le> rhe (y / ulp y)" by (rule rhe_mono)
  then show ?thesis
    using ulp_pos [of y] by (simp add: rnd_def u mult_right_mono)
next
  case False
  have y: "0 < y" using assms by linarith
  from False expo_mono [OF assms] have lt: "expo x < expo y" by simp
  then have "- 1022 < expo y" using expo_ge [of x] by linarith
  then have "2 powi (expo y) \<le> y" using y by (rule expo_normal_lower [rotated])
  then have "2 powi (expo y) \<le> rnd y" using y by (intro rnd_lower)
  moreover have "(2::real) powi (expo x + 1) \<le> 2 powi (expo y)"
    using lt by (intro power_int_increasing) simp_all
  ultimately show ?thesis
    using rnd_upper [OF assms(1)] by linarith
qed

lemma rnd_exact:
  assumes "0 < m" "m < 2 ^ 53" "- 1074 \<le> k"
  shows "rnd (of_int m * 2 powi k) = of_int m * 2 powi k"
proof -
  let ?x = "real_of_int m * 2 powi k"
  have x: "0 < ?x" using assms(1) by simp
  have "expo ?x - 52 \<le> k"
  proof (cases "- 1022 < expo ?x")
    case True
    then have "2 powi (expo ?x) \<le> ?x" using x by (intro expo_normal_lower)
    moreover have "real_of_int m < 2 ^ 53"
      using assms(2) by (metis of_int_less_iff of_int_numeral of_int_power)
    then have "?x < 2 ^ 53 * 2 powi k" by simp
    moreover have "(2::real) ^ 53 * 2 powi k = 2 powi (53 + k)"
      by (subst power_int_add) simp_all
    ultimately have "(2::real) powi (expo ?x) < 2 powi (53 + k)" by linarith
    have "expo ?x < 53 + k"
    proof (rule ccontr)
      assume "\<not> expo ?x < 53 + k"
      then have "(2::real) powi (53 + k) \<le> 2 powi (expo ?x)"
        by (intro power_int_increasing) simp_all
      with \<open>(2::real) powi (expo ?x) < 2 powi (53 + k)\<close> show False by linarith
    qed
    then show ?thesis by simp
  next
    case False
    with expo_ge [of ?x] have "expo ?x = - 1022" by linarith
    with assms(3) show ?thesis by simp
  qed
  then have "k = (expo ?x - 52) + int (nat (k - (expo ?x - 52)))" by simp
  then obtain j :: nat where j: "k = (expo ?x - 52) + int j" ..
  define u where "u = ulp ?x"
  have u: "0 < u" by (simp add: u_def ulp_pos)
  have "(2::real) powi k = 2 powi (expo ?x - 52) * 2 ^ j"
    by (subst j, subst power_int_add) (simp_all add: power_int_of_nat)
  then have pk: "(2::real) powi k = u * 2 ^ j"
    by (simp add: u_def ulp_def)
  have "?x / u = real_of_int m * 2 ^ j"
    using u by (simp add: pk)
  then have "?x / u = of_int (m * 2 ^ j)" by simp
  then have "rhe (?x / u) = m * 2 ^ j"
    by (simp only: rhe_of_int)
  then have "rnd ?x = of_int (m * 2 ^ j) * u"
    by (simp only: rnd_def u_def)
  also have "\<dots> = ?x"
    by (simp add: pk)
  finally show ?thesis .
qed

lemma mantissa_upper:
  assumes "0 < x"
  shows "rhe (x / ulp x) \<le> 2 ^ 53"
proof -
  have "x / ulp x \<le> 2 ^ 53"
    using expo_upper [OF assms] ulp_pos [of x]
    by (simp add: pos_divide_le_eq pow2_split [of "expo x"] ulp_def)
  then have "x / ulp x \<le> of_int (2 ^ 53)" by simp
  then show ?thesis by (rule rhe_le)
qed

lemma rnd_idem:
  assumes "0 < x" "0 < rnd x"
  shows "rnd (rnd x) = rnd x"
proof -
  define M where "M = rhe (x / ulp x)"
  have r: "rnd x = of_int M * 2 powi (expo x - 52)"
    by (simp add: rnd_def M_def ulp_def)
  have p: "(0::real) < 2 powi (expo x - 52)" by simp
  have "0 < real_of_int M"
    using assms(2) p unfolding r by (simp add: zero_less_mult_iff)
  then have M: "0 < M" "M \<le> 2 ^ 53"
    using mantissa_upper [OF assms(1)] by (simp_all add: M_def)
  have k: "- 1074 \<le> expo x - 52" using expo_ge [of x] by simp
  show ?thesis
  proof (cases "M = 2 ^ 53")
    case True
    have "rnd x = of_int 1 * 2 powi (expo x + 1)"
      by (simp add: r True pow2_split [of "expo x"])
    moreover have "rnd (of_int 1 * 2 powi (expo x + 1)) = of_int 1 * 2 powi (expo x + 1)"
      using k by (intro rnd_exact) simp_all
    ultimately show ?thesis by simp
  next
    case False
    with M have "M < 2 ^ 53" by simp
    from rnd_exact [OF M(1) this k] show ?thesis by (simp add: r)
  qed
qed

subsection \<open>The rounded value of a real number\<close>

lemma fl_nonneg: "0 \<le> x \<Longrightarrow> nonneg (fl x)"
  using rnd_nonneg [of x] by (auto simp: fl_def nonneg_def)


lemma fl_exact:
  assumes "0 < m" "m < 2 ^ 53" "- 1074 \<le> k" "of_int m * 2 powi k < (2::real) powi 1024"
  shows "fl (of_int m * 2 powi k) = Finite (of_int m * 2 powi k)"
  using assms rnd_exact [OF assms(1-3)] by (simp add: fl_def)

lemma fl_idem:
  assumes "0 \<le> x" "fl x = Finite r"
  shows "fl r = Finite r"
proof (cases "x = 0 \<or> r = 0")
  case True
  with assms show ?thesis by (auto simp: fl_def split: if_splits)
next
  case False
  with assms have x: "0 < x" and r: "r = rnd x" "\<not> 2 powi 1024 \<le> rnd x"
    by (auto simp: fl_def split: if_splits)
  with False rnd_nonneg [OF x] have "0 < rnd x" by simp
  from rnd_idem [OF x this] r \<open>0 < rnd x\<close> show ?thesis
    by (simp add: fl_def)
qed

lemma fl_0: "fl 0 = Finite 0"
  by (simp add: fl_def)

lemma fl_overflow:
  assumes "2 powi 1024 \<le> x"
  shows "fl x = Infinity"
proof -
  have x: "0 < x"
    using assms zero_less_power_int [of "2::real" 1024] by linarith
  have "1024 \<le> \<lfloor>log 2 x\<rfloor>"
  proof (rule ccontr)
    assume "\<not> 1024 \<le> \<lfloor>log 2 x\<rfloor>"
    then have "(2::real) powi (\<lfloor>log 2 x\<rfloor> + 1) \<le> 2 powi 1024"
      by (intro power_int_increasing) simp_all
    with floor_log2_bounds(2) [OF x] assms show False by linarith
  qed
  then have e: "1024 \<le> expo x" by (simp add: expo_def)
  then have "- 1022 < expo x" by simp
  then have "2 powi (expo x) \<le> rnd x"
    using x by (intro rnd_lower expo_normal_lower)
  moreover have "(2::real) powi 1024 \<le> 2 powi (expo x)"
    using e by (intro power_int_increasing) simp_all
  ultimately show ?thesis using x by (simp add: fl_def)
qed



lemma fl_of_int:
  assumes "0 < n" "n < 2 ^ 53"
  shows "fl (of_int n) = Finite (of_int n)"
proof -
  have "real_of_int n < 2 ^ 53"
    using assms(2) by (metis of_int_less_iff of_int_numeral of_int_power)
  also have "\<dots> < 2 powi 1024"
    using power_int_strict_increasing [of 53 1024 "2::real"] by simp
  finally have "real_of_int n * 2 powi 0 < 2 powi 1024" by simp
  from fl_exact [OF assms, of 0, OF _ this] show ?thesis by simp
qed

subsection \<open>The bounds check in binary64\<close>

lemma b_of_nat_exact:
  assumes "n \<le> 2 ^ 53"
  shows "b_of_nat n = Finite (real n)"
proof (cases "n = 0")
  case True
  then show ?thesis by (simp add: b_of_nat_def fl_0)
next
  case False
  show ?thesis
  proof (cases "n = 2 ^ 53")
    case True
    have "(1::real) * 2 powi 53 < 2 powi 1024"
      using power_int_strict_increasing [of 53 1024 "2::real"] by simp
    from fl_exact [of 1 53, OF _ _ _] this have "fl (of_int 1 * 2 powi 53) = Finite (of_int 1 * 2 powi 53)"
      by simp
    then show ?thesis using True by (simp add: b_of_nat_def)
  next
    case False
    with assms have "n < 2 ^ 53" by simp
    with \<open>n \<noteq> 0\<close> have "0 < int n" "int n < 2 ^ 53"
      by simp_all
    from fl_of_int [OF this] show ?thesis by (simp add: b_of_nat_def)
  qed
qed

lemma in_range64_passes:
  assumes "getn \<le> 2 ^ 53" "in_range64 x getn"
  shows "\<not> bless x (Finite 0)" "\<not> bge x (b_of_nat getn)" "\<exists>i. array_index64 x = Some i"
  using assms by (cases x; simp add: b_of_nat_exact bge_def beq_def)+

lemma stateCost64_in_bounds:
  assumes "mpTravGrid64 obj = Some grid" "mpTravData64 obj = Some trav_data"
    and "state_position64 (mEnvType64 (mConfig64 obj)) s = Inr (x, y, fc)"
    and "getCellSizeX64 grid \<le> 2 ^ 53" "getCellSizeY64 grid \<le> 2 ^ 53"
    and "in_range64 x (getCellSizeX64 grid)" "in_range64 y (getCellSizeY64 grid)"
    and "array_index64 x = Some ix" "array_index64 y = Some iy"
  shows "stateCost64 obj s =
    ([], Inr (let driveability = getDrivability64 (getTraversabilityClass64 grid (trav_data iy ix));
                  speed = mSpeed64 (mMobility64 (mConfig64 obj))
              in if beq driveability (Finite 0) \<or> beq speed (Finite 0) then Finite double_max
                 else if mEnvType64 (mConfig64 obj) = ENV_SHERPA
                 then bdiv (bdiv (bdiv (getScaleX64 grid) speed) driveability)
                        (bdiv (b_of_int (fc + 1))
                              (badd (b_of_int (mNumFootprintClasses64 (mConfig64 obj))) (Finite 1)))
                 else bdiv (bdiv (getScaleX64 grid) speed) driveability))"
  using assms in_range64_passes(1,2) [OF assms(4,6)] in_range64_passes(1,2) [OF assms(5,7)]
  by (simp add: stateCost64_def Let_def)

subsection \<open>Quotients of numbers that are not negative\<close>










lemma fl_1: "fl 1 = Finite 1"
  using fl_of_int [of 1] by simp





subsection \<open>The cost of a cell in binary64\<close>

lemma array_index64_in_range: "in_range64 x n \<Longrightarrow> array_index64 x = Some (cell_index x)"
  by (cases x) simp_all

lemma stateCost64_inside:
  assumes "mpTravGrid64 obj = Some grid" "mpTravData64 obj = Some trav_data"
    and "state_position64 (mEnvType64 (mConfig64 obj)) s = Inr (x, y, fc)"
    and "getCellSizeX64 grid \<le> 2 ^ 53" "getCellSizeY64 grid \<le> 2 ^ 53"
    and "in_range64 x (getCellSizeX64 grid)" "in_range64 y (getCellSizeY64 grid)"
  shows "stateCost64 obj s =
    ([], Inr (let driveability = getDrivability64 (getTraversabilityClass64 grid
                                   (trav_data (cell_index y) (cell_index x)));
                  speed = mSpeed64 (mMobility64 (mConfig64 obj))
              in if beq driveability (Finite 0) \<or> beq speed (Finite 0) then Finite double_max
                 else if mEnvType64 (mConfig64 obj) = ENV_SHERPA
                 then bdiv (bdiv (bdiv (getScaleX64 grid) speed) driveability)
                        (bdiv (b_of_int (fc + 1))
                              (badd (b_of_int (mNumFootprintClasses64 (mConfig64 obj))) (Finite 1)))
                 else bdiv (bdiv (getScaleX64 grid) speed) driveability))"
  using stateCost64_in_bounds [OF assms array_index64_in_range [OF assms(6)]
      array_index64_in_range [OF assms(7)]] .

lemma stateCost64_finite_cost:
  assumes "mpTravGrid64 obj = Some grid" "mpTravData64 obj = Some trav_data"
    and "state_position64 (mEnvType64 (mConfig64 obj)) s = Inr (x, y, fc)"
    and "getCellSizeX64 grid \<le> 2 ^ 53" "getCellSizeY64 grid \<le> 2 ^ 53"
    and "in_range64 x (getCellSizeX64 grid)" "in_range64 y (getCellSizeY64 grid)"
    and "getDrivability64 (getTraversabilityClass64 grid (trav_data (cell_index y) (cell_index x)))
           = Finite d" "d \<noteq> 0"
    and "mSpeed64 (mMobility64 (mConfig64 obj)) = Finite v" "v \<noteq> 0"
  shows "stateCost64 obj s =
    ([], Inr (if mEnvType64 (mConfig64 obj) = ENV_SHERPA
              then bdiv (bdiv (bdiv (getScaleX64 grid) (Finite v)) (Finite d))
                     (bdiv (b_of_int (fc + 1))
                           (badd (b_of_int (mNumFootprintClasses64 (mConfig64 obj))) (Finite 1)))
              else bdiv (bdiv (getScaleX64 grid) (Finite v)) (Finite d)))"
  using assms(8-11) by (auto simp add: stateCost64_inside [OF assms(1-7)] beq_def Let_def)


lemma fl_numeral: "numeral w < (2::int) ^ 53 \<Longrightarrow> fl (numeral w) = Finite (numeral w)"
  using fl_of_int [of "numeral w"] by simp

lemma fl_pow2:
  assumes "- 1074 \<le> k" "k < 1024"
  shows "fl (2 powi k) = Finite (2 powi k)"
proof -
  have "real_of_int 1 * 2 powi k < 2 powi 1024"
    using assms(2) power_int_strict_increasing [of k 1024 "2::real"] by simp
  from fl_exact [of 1 k, OF _ _ assms(1) this] show ?thesis by simp
qed

lemma fl_half: "fl (1 / 2) = Finite (1 / 2)"
  using fl_pow2 [of "- 1"] by simp

lemma objective64_simps:
  "mpTravGrid64 (objective64 env scale drivability speed n)
     = Some (example_grid64\<lparr>getScaleX64 := scale,
         getTraversabilityClass64 := (\<lambda>c. \<lparr>getDrivability64 = drivability\<rparr>)\<rparr>)"
  "mpTravData64 (objective64 env scale drivability speed n) = Some (\<lambda>y x. 0)"
  "mEnvType64 (mConfig64 (objective64 env scale drivability speed n)) = env"
  "mSpeed64 (mMobility64 (mConfig64 (objective64 env scale drivability speed n))) = speed"
  "mNumFootprintClasses64 (mConfig64 (objective64 env scale drivability speed n)) = n"
  by (simp_all add: objective64_def)


lemma bdiv_Finite: "y \<noteq> 0 \<Longrightarrow> x \<noteq> 0 \<Longrightarrow> bdiv (Finite x) (Finite y) = fl (x / y)"
  by (simp add: bdiv_def)

lemma badd_Finite: "x + y \<noteq> 0 \<Longrightarrow> badd (Finite x) (Finite y) = fl (x + y)"
  by (simp add: badd_def)

lemma bmul_Finite: "x * y \<noteq> 0 \<Longrightarrow> bmul (Finite x) (Finite y) = fl (x * y)"
  by (simp add: bmul_def)

lemma stateCost64_sherpa_example:
  assumes "0 \<le> x" "x < 10" "0 \<le> y" "y < 10" "d \<noteq> 0" "v \<noteq> 0"
  shows "stateCost64 (objective64 ENV_SHERPA scale (Finite d) (Finite v) n)
           (SherpaState64 (Finite x) (Finite y) yaw fc)
         = ([], Inr (bdiv (bdiv (bdiv scale (Finite v)) (Finite d))
                      (bdiv (b_of_int (fc + 1)) (badd (b_of_int n) (Finite 1)))))"
  using assms
  by (subst stateCost64_finite_cost [where x = "Finite x" and y = "Finite y" and fc = fc
        and d = d and v = v and trav_data = "\<lambda>y x. 0"
        and grid = "example_grid64\<lparr>getScaleX64 := scale,
         getTraversabilityClass64 := (\<lambda>c. \<lparr>getDrivability64 = Finite d\<rparr>)\<rparr>"])
     (simp_all add: objective64_simps example_grid64_def)




subsection \<open>The footprint class in binary64\<close>











subsection \<open>The sign of the two times of motionCost\<close>

lemma fl_not_negative: "0 \<le> x \<Longrightarrow> \<not> bless (fl x) (Finite 0)"
  using fl_nonneg [of x] by (cases "fl x") (auto simp: nonneg_def)

lemma bsqrt_not_negative: "\<not> bless (bsqrt a) (Finite 0)"
  by (cases a) (simp_all add: fl_not_negative)

lemma not_negative_cases:
  assumes "\<not> bless a (Finite 0)"
  obtains r where "a = Finite r" "0 \<le> r" | "a = MinusZero" | "a = Infinity" | "a = NotANumber"
  using assms by (cases a) (auto simp: not_less)

lemma bmul_not_negative:
  assumes "\<not> bless a (Finite 0)" "\<not> bless b (Finite 0)"
  shows "\<not> bless (bmul a b) (Finite 0)"
  using assms(1)
proof (cases rule: not_negative_cases)
  case (1 r)
  from assms(2) show ?thesis
    by (cases rule: not_negative_cases)
       (use 1 in \<open>auto simp: bmul_def zero_of_def inf_of_def fl_not_negative\<close>)
next
  case 2
  from assms(2) show ?thesis
    by (cases rule: not_negative_cases)
       (use 2 in \<open>auto simp: bmul_def zero_of_def inf_of_def\<close>)
next
  case 3
  from assms(2) show ?thesis
    by (cases rule: not_negative_cases)
       (use 3 in \<open>auto simp: bmul_def zero_of_def inf_of_def\<close>)
next
  case 4
  then show ?thesis by (simp add: bmul_def)
qed

lemma bdiv_not_negative:
  assumes "\<not> bless a (Finite 0)" "\<not> bless b (Finite 0)" "b \<noteq> MinusZero"
  shows "\<not> bless (bdiv a b) (Finite 0)"
  using assms(1)
proof (cases rule: not_negative_cases)
  case (1 r)
  from assms(2) show ?thesis
    by (cases rule: not_negative_cases)
       (use 1 assms(3) in \<open>auto simp: bdiv_def zero_of_def inf_of_def fl_not_negative\<close>)
next
  case 2
  from assms(2) show ?thesis
    by (cases rule: not_negative_cases)
       (use 2 assms(3) in \<open>auto simp: bdiv_def zero_of_def inf_of_def\<close>)
next
  case 3
  from assms(2) show ?thesis
    by (cases rule: not_negative_cases)
       (use 3 assms(3) in \<open>auto simp: bdiv_def zero_of_def inf_of_def\<close>)
next
  case 4
  then show ?thesis by (simp add: bdiv_def)
qed


lemma dist_m64_not_negative:
  assumes "\<not> bless (getScaleX64 grid) (Finite 0)"
  shows "\<not> bless (dist_m64 grid x1 y1 x2 y2) (Finite 0)"
  using assms by (simp add: dist_m64_def norm2d64_def bmul_not_negative bsqrt_not_negative)

lemma mov_time_sec64_not_negative:
  assumes "\<not> bless (getScaleX64 grid) (Finite 0)"
    and "\<not> bless (mSpeed64 (mMobility64 cfg)) (Finite 0)" "mSpeed64 (mMobility64 cfg) \<noteq> MinusZero"
  shows "\<not> bless (mov_time_sec64 cfg grid x1 y1 x2 y2) (Finite 0)"
  using assms by (simp add: mov_time_sec64_def bdiv_not_negative dist_m64_not_negative)


lemma fl_idem_general:
  assumes "fl x = Finite r"
  shows "fl r = Finite r"
proof (cases "0 \<le> x")
  case True
  then show ?thesis using assms by (rule fl_idem)
next
  case False
  then have x: "0 < - x" by simp
  from assms False have r: "r = - rnd (- x)" "rnd (- x) \<noteq> 0" "\<not> 2 powi 1024 \<le> rnd (- x)"
    by (auto simp: fl_def split: if_splits)
  with rnd_nonneg [OF x] have p: "0 < rnd (- x)" by simp
  from rnd_idem [OF x p] r p show ?thesis
    by (simp add: fl_def)
qed

lemma is_binary64_fl: "is_binary64 (fl x)"
  by (cases "fl x") (auto simp: is_binary64_def dest: fl_idem_general)

lemma is_binary64_zero_of: "is_binary64 (zero_of s)"
  by (simp add: zero_of_def is_binary64_def fl_0)

lemma is_binary64_inf_of: "is_binary64 (inf_of s)"
  by (simp add: inf_of_def is_binary64_def)

lemma is_binary64_bmul: "is_binary64 (bmul a b)"
  by (simp add: bmul_def is_binary64_fl is_binary64_zero_of is_binary64_inf_of
        split: option.splits)
    (simp add: is_binary64_def)

lemma badd_zero:
  assumes "is_binary64 c" "is_zero z"
  shows "badd c z = c \<or> is_zero c \<and> is_zero (badd c z)"
proof (cases c)
  case (Finite x)
  with assms(1) have x: "fl x = Finite x" by (simp add: is_binary64_def)
  from assms(2) have z: "finite_value z = Some 0" "z \<noteq> NotANumber"
    by (auto simp: is_zero_def)
  show ?thesis
  proof (cases "x = 0")
    case True
    with Finite z show ?thesis by (simp add: badd_def is_zero_def zero_of_def)
  next
    case False
    with Finite z x show ?thesis by (simp add: badd_def)
  qed
qed (use assms(2) in \<open>auto simp: badd_def is_zero_def zero_of_def\<close>)

subsection \<open>motionCost in the footprint-aware environment, in binary64\<close>

lemma rnd_1: "rnd 1 = 1"
  using rnd_exact [of 1 0] by simp

lemma fl_ge_1:
  assumes "1 \<le> x"
  shows "fl x = Infinity \<or> (\<exists>r. fl x = Finite r \<and> 1 \<le> r)"
proof -
  from rnd_mono [of 1 x] assms have "1 \<le> rnd x" by (simp add: rnd_1)
  with assms show ?thesis by (simp add: fl_def)
qed

lemma fl_le_minus_1:
  assumes "x \<le> - 1"
  shows "fl x = MinusInfinity \<or> (\<exists>r. fl x = Finite r \<and> r \<le> - 1)"
proof -
  from rnd_mono [of 1 "- x"] assms have "1 \<le> rnd (- x)" by (simp add: rnd_1)
  with assms show ?thesis by (simp add: fl_def)
qed

lemma b_of_int_nonzero:
  assumes "n \<noteq> 0"
  shows "b_of_int n \<noteq> NotANumber \<and> finite_value (b_of_int n) \<noteq> Some 0"
proof (cases "0 < n")
  case True
  then have "1 \<le> real_of_int n" by simp
  from fl_ge_1 [OF this] show ?thesis by (auto simp: b_of_int_def)
next
  case False
  with assms have "real_of_int n \<le> - 1" by simp
  from fl_le_minus_1 [OF this] show ?thesis by (auto simp: b_of_int_def)
qed

lemma is_zero_zero_of: "is_zero (zero_of s)"
  by (simp add: is_zero_def zero_of_def)

lemma fp_time_sec64_same_class:
  assumes "mNumFootprintClasses64 cfg \<noteq> 0"
    and "finite_value (mTimeToAdaptFootprint64 cfg) = Some t"
  shows "is_zero (fp_time_sec64 cfg c c)"
proof -
  let ?n = "b_of_int (mNumFootprintClasses64 cfg)"
  from b_of_int_nonzero [OF assms(1)]
  have n: "?n \<noteq> NotANumber" "finite_value ?n \<noteq> Some 0" by simp_all
  have "is_zero (bdiv (Finite 0) ?n)"
    using n by (auto simp: bdiv_def is_zero_zero_of split: option.splits)
  then have z: "finite_value (bdiv (Finite 0) ?n) = Some 0" "bdiv (Finite 0) ?n \<noteq> NotANumber"
    by (auto simp: is_zero_def)
  from assms(2) have T: "mTimeToAdaptFootprint64 cfg \<noteq> NotANumber" by auto
  have "is_zero (bmul (bdiv (Finite 0) ?n) (mTimeToAdaptFootprint64 cfg))"
    using z T assms(2) by (simp add: bmul_def is_zero_zero_of)
  then show ?thesis
    by (simp add: fp_time_sec64_def to_int32_def b_of_int_def fl_0)
qed

lemma is_zero_not_greater:
  assumes "is_zero z" "\<not> bless m (Finite 0)"
  shows "\<not> bgt z (Finite 0)" "\<not> bgt z m"
  using assms by (cases m; auto simp: is_zero_def bgt_def)+

lemma base_motionCost64_returns:
  assumes "base_motionCost64 obj s1 s2 = (logged, Inr cost)"
  shows "is_binary64 cost"
  using assms
  by (auto simp: base_motionCost64_def is_binary64_bmul split: prod.splits sum.splits)

lemma motionCost64_sherpa:
  assumes "mEnvType64 (mConfig64 obj) = ENV_SHERPA" "mpTravGrid64 obj = Some grid"
  shows "motionCost64 obj (SherpaState64 x1 y1 yaw1 c1) (SherpaState64 x2 y2 yaw2 c2) =
    (case base_motionCost64 obj (SherpaState64 x1 y1 yaw1 c1) (SherpaState64 x2 y2 yaw2 c2) of
       (logged, Inl e) \<Rightarrow> (logged, Inl e)
     | (logged, Inr cost) \<Rightarrow>
         let fp = fp_time_sec64 (mConfig64 obj) c1 c2;
             cost_v = badd cost fp;
             cost_v = (if bgt fp (Finite 0)
                       then badd cost_v (mAdaptFootprintPenalty64 (mConfig64 obj))
                       else cost_v);
             mov = mov_time_sec64 (mConfig64 obj) grid x1 y1 x2 y2
         in if bgt fp mov then (logged, Inr Infinity) else (logged, Inr cost_v))"
  using assms by (simp add: motionCost64_def split: prod.splits sum.splits)

subsection \<open>The base cost of two stopped states\<close>

lemma fl_minus:
  assumes "0 < x" "fl x = Finite x"
  shows "fl (- x) = Finite (- x)"
  using assms by (auto simp: fl_def split: if_splits)

lemma bsub_Finite: "x \<noteq> y \<Longrightarrow> bsub (Finite x) (Finite y) = fl (x - y)"
  by (simp add: bsub_def badd_def)

lemma bsub_self: "bsub (Finite x) (Finite x) = Finite 0"
  by (simp add: bsub_def badd_def zero_of_def)

lemma bmul_zero: "bmul (Finite 0) (Finite y) = zero_of (y < 0)"
  by (simp add: bmul_def)

lemma fl_minus_5: "fl (- 5) = Finite (- 5)"
  using fl_minus [of 5] by (simp add: fl_numeral)

lemma example_norm: "norm2d64 (bsub (Finite 1) (Finite 6)) (bsub (Finite 2) (Finite 2)) = Finite 5"
  by (simp add: norm2d64_def bsub_Finite bsub_self fl_minus_5 bmul_Finite bmul_zero zero_of_def
        fl_numeral badd_def)

lemma objective64_config:
  "si_distance64 (objective64 env scale drivability speed n) = example_distance64"
  "mTimeToAdaptFootprint64 (mConfig64 (objective64 env scale drivability speed n)) = Finite 10"
  "mAdaptFootprintPenalty64 (mConfig64 (objective64 env scale drivability speed n)) = Finite 20"
  by (simp_all add: objective64_def)

lemma double_max_overflow: "badd (Finite double_max) (Finite double_max) = Infinity"
proof -
  have "(2::real) ^ 53 - 1 \<ge> 2 ^ 52" by simp
  then have "((2::real) ^ 53 - 1) * 2 ^ 972 \<ge> 2 ^ 52 * 2 ^ 972"
    by (intro mult_right_mono) simp_all
  also have "(2::real) ^ 52 * 2 ^ 972 = 2 ^ 1024"
    by (simp flip: power_add)
  also have "((2::real) ^ 53 - 1) * 2 ^ 972 = double_max + double_max"
    by (simp add: double_max_def)
  finally have b: "(2::real) powi 1024 \<le> double_max + double_max" by simp
  then have "0 < double_max + double_max"
    using zero_less_power_int [of "2::real" 1024] by linarith
  with fl_overflow [OF b] show ?thesis by (simp add: badd_def)
qed

lemma stateCost64_at_zero_speed:
  assumes "mpTravGrid64 obj = Some grid" "mpTravData64 obj = Some trav_data"
    and "state_position64 (mEnvType64 (mConfig64 obj)) s = Inr (x, y, fc)"
    and "getCellSizeX64 grid \<le> 2 ^ 53" "getCellSizeY64 grid \<le> 2 ^ 53"
    and "in_range64 x (getCellSizeX64 grid)" "in_range64 y (getCellSizeY64 grid)"
    and "beq (mSpeed64 (mMobility64 (mConfig64 obj))) (Finite 0)"
  shows "stateCost64 obj s = ([], Inr (Finite double_max))"
  using stateCost64_inside [OF assms(1-7)] assms(8) by (simp add: Let_def)



lemma stateCost64_stopped_example:
  assumes "0 \<le> x" "x < 10" "0 \<le> y" "y < 10" "beq speed (Finite 0)"
  shows "stateCost64 (objective64 ENV_SHERPA scale drivability speed n)
           (SherpaState64 (Finite x) (Finite y) yaw fc) = ([], Inr (Finite double_max))"
  using assms
  by (subst stateCost64_at_zero_speed [where x = "Finite x" and y = "Finite y" and fc = fc
        and trav_data = "\<lambda>y x. 0"
        and grid = "example_grid64\<lparr>getScaleX64 := scale,
         getTraversabilityClass64 := (\<lambda>c. \<lparr>getDrivability64 = drivability\<rparr>)\<rparr>"])
     (simp_all add: objective64_simps example_grid64_def)

lemma base_motionCost64_stopped_example:
  assumes "beq speed (Finite 0)"
  shows "base_motionCost64 (objective64 ENV_SHERPA (Finite 1) (Finite (1 / 2)) speed 3)
           (SherpaState64 (Finite 1) (Finite 2) (Finite 0) c1)
           (SherpaState64 (Finite 6) (Finite 2) (Finite 0) c2) = ([], Inr Infinity)"
proof -
  have "bdiv Infinity (Finite 2) = Infinity" "bmul Infinity (Finite 5) = Infinity"
    by (simp_all add: bdiv_def bmul_def inf_of_def)
  then show ?thesis
    using assms
    by (simp add: base_motionCost64_def stateCost64_stopped_example double_max_overflow
          objective64_config example_norm)
qed

lemma fp_time_sec64_example:
  "fp_time_sec64 (mConfig64 (objective64 env scale drivability speed 3)) 1 1 = Finite 0"
  "fp_time_sec64 (mConfig64 (objective64 env scale drivability speed 3)) 0 3 = Finite 10"
proof -
  have "bdiv (Finite 0) (Finite 3) = Finite 0" "bmul (Finite 0) (Finite 10) = Finite 0"
    by (simp_all add: bdiv_def bmul_def zero_of_def)
  then show "fp_time_sec64 (mConfig64 (objective64 env scale drivability speed 3)) 1 1 = Finite 0"
    by (simp add: fp_time_sec64_def objective64_simps objective64_config to_int32_def
          b_of_int_def fl_0 fl_numeral)
  show "fp_time_sec64 (mConfig64 (objective64 env scale drivability speed 3)) 0 3 = Finite 10"
    by (simp add: fp_time_sec64_def objective64_simps objective64_config to_int32_def
          b_of_int_def fl_numeral bdiv_Finite fl_1 bmul_Finite)
qed

lemma dist_m64_example:
  "dist_m64 (example_grid64\<lparr>getScaleX64 := Finite 1,
       getTraversabilityClass64 := (\<lambda>c. \<lparr>getDrivability64 = drivability\<rparr>)\<rparr>)
     (Finite 1) (Finite 2) (Finite 6) (Finite 2) = Finite 5"
  by (simp add: dist_m64_def example_norm bmul_Finite fl_numeral)

lemma mov_time_sec64_example:
  "mov_time_sec64 (mConfig64 (objective64 env (Finite 1) drivability (Finite 2) n))
     (example_grid64\<lparr>getScaleX64 := Finite 1,
       getTraversabilityClass64 := (\<lambda>c. \<lparr>getDrivability64 = drivability\<rparr>)\<rparr>)
     (Finite 1) (Finite 2) (Finite 6) (Finite 2) = Finite (5 / 2)"
  "mov_time_sec64 (mConfig64 (objective64 env (Finite 1) drivability (Finite 0) n))
     (example_grid64\<lparr>getScaleX64 := Finite 1,
       getTraversabilityClass64 := (\<lambda>c. \<lparr>getDrivability64 = drivability\<rparr>)\<rparr>)
     (Finite 1) (Finite 2) (Finite 6) (Finite 2) = Infinity"
  "mov_time_sec64 (mConfig64 (objective64 env (Finite 1) drivability MinusZero n))
     (example_grid64\<lparr>getScaleX64 := Finite 1,
       getTraversabilityClass64 := (\<lambda>c. \<lparr>getDrivability64 = drivability\<rparr>)\<rparr>)
     (Finite 1) (Finite 2) (Finite 6) (Finite 2) = MinusInfinity"
proof -
  have "fl (5 / 2) = Finite (5 / 2)"
    using fl_exact [of 5 "- 1"] power_int_strict_increasing [of 2 1024 "2::real"] by simp
  then show "mov_time_sec64 (mConfig64 (objective64 env (Finite 1) drivability (Finite 2) n))
     (example_grid64\<lparr>getScaleX64 := Finite 1,
       getTraversabilityClass64 := (\<lambda>c. \<lparr>getDrivability64 = drivability\<rparr>)\<rparr>)
     (Finite 1) (Finite 2) (Finite 6) (Finite 2) = Finite (5 / 2)"
    by (simp add: mov_time_sec64_def dist_m64_example objective64_simps bdiv_Finite)
qed (simp_all add: mov_time_sec64_def dist_m64_example objective64_simps bdiv_def inf_of_def)


text \<open>
  C7, amended. In the footprint-aware environment, for two states of the same footprint
  class, with a number of footprint classes other than 0, a finite adaptation time, a scale
  that is not less than 0, and a speed that is not less than 0 and is not \<^verbatim>\<open>-0.0\<close>:
  \<^verbatim>\<open>fp_time_sec\<close> is a zero; it is not greater than 0, so no penalty is added; it is not
  greater than \<^verbatim>\<open>mov_time_sec\<close>, so the cost is not replaced by infinity; an exception of
  the base segment cost is the exception of \<open>motionCost\<close>; and the cost returned is the
  base segment cost plus that zero, which is the base segment cost itself, or a zero where
  the base segment cost is a zero (the sum of \<^verbatim>\<open>-0.0\<close> and \<^verbatim>\<open>+0.0\<close> is \<^verbatim>\<open>+0.0\<close>).
\<close>

theorem motionCost64_same_footprint_class:
  assumes "mEnvType64 (mConfig64 obj) = ENV_SHERPA"
    and "mpTravGrid64 obj = Some grid"
    and "mNumFootprintClasses64 (mConfig64 obj) \<noteq> 0"
    and "finite_value (mTimeToAdaptFootprint64 (mConfig64 obj)) = Some t"
    and "\<not> bless (getScaleX64 grid) (Finite 0)"
    and "\<not> bless (mSpeed64 (mMobility64 (mConfig64 obj))) (Finite 0)"
    and "mSpeed64 (mMobility64 (mConfig64 obj)) \<noteq> MinusZero"
  shows "is_zero (fp_time_sec64 (mConfig64 obj) c c) \<and>
    \<not> bgt (fp_time_sec64 (mConfig64 obj) c c) (Finite 0) \<and>
    \<not> bgt (fp_time_sec64 (mConfig64 obj) c c)
          (mov_time_sec64 (mConfig64 obj) grid x1 y1 x2 y2) \<and>
    (case base_motionCost64 obj (SherpaState64 x1 y1 yaw1 c) (SherpaState64 x2 y2 yaw2 c) of
       (logged, Inl e) \<Rightarrow>
         motionCost64 obj (SherpaState64 x1 y1 yaw1 c) (SherpaState64 x2 y2 yaw2 c)
           = (logged, Inl e)
     | (logged, Inr cost) \<Rightarrow>
         motionCost64 obj (SherpaState64 x1 y1 yaw1 c) (SherpaState64 x2 y2 yaw2 c)
           = (logged, Inr (badd cost (fp_time_sec64 (mConfig64 obj) c c))) \<and>
         (badd cost (fp_time_sec64 (mConfig64 obj) c c) = cost \<or>
          is_zero cost \<and> is_zero (badd cost (fp_time_sec64 (mConfig64 obj) c c))))"
proof -
  let ?fp = "fp_time_sec64 (mConfig64 obj) c c"
  let ?mov = "mov_time_sec64 (mConfig64 obj) grid x1 y1 x2 y2"
  have z: "is_zero ?fp"
    using assms(3,4) by (rule fp_time_sec64_same_class)
  have m: "\<not> bless ?mov (Finite 0)"
    using assms(5,6,7) by (rule mov_time_sec64_not_negative)
  note g = is_zero_not_greater [OF z m]
  show ?thesis
  proof (cases "base_motionCost64 obj (SherpaState64 x1 y1 yaw1 c) (SherpaState64 x2 y2 yaw2 c)")
    case (Pair logged r)
    show ?thesis
    proof (cases r)
      case (Inl e)
      with Pair z g show ?thesis
        by (simp add: motionCost64_sherpa [OF assms(1,2)])
    next
      case (Inr cost)
      with Pair have "is_binary64 cost" by (simp add: base_motionCost64_returns)
      from badd_zero [OF this z] Pair Inr z g show ?thesis
        by (simp add: motionCost64_sherpa [OF assms(1,2)] Let_def)
    qed
  qed
qed

theorem motionCost64_same_footprint_class_witness:
  "mEnvType64 (mConfig64 (objective64 ENV_SHERPA (Finite 1) (Finite (1 / 2)) (Finite 2) 3)) = ENV_SHERPA \<and>
   mNumFootprintClasses64 (mConfig64 (objective64 ENV_SHERPA (Finite 1) (Finite (1 / 2)) (Finite 2) 3)) \<noteq> 0 \<and>
   finite_value (mTimeToAdaptFootprint64
     (mConfig64 (objective64 ENV_SHERPA (Finite 1) (Finite (1 / 2)) (Finite 2) 3))) = Some 10 \<and>
   \<not> bless (Finite 1) (Finite 0) \<and> \<not> bless (Finite 2) (Finite 0) \<and> Finite 2 \<noteq> MinusZero \<and>
   fp_time_sec64 (mConfig64 (objective64 ENV_SHERPA (Finite 1) (Finite (1 / 2)) (Finite 2) 3)) 1 1
     = Finite 0 \<and>
   is_zero (Finite 0) \<and> \<not> bgt (Finite 0) (Finite 0) \<and> \<not> bgt (Finite 0) (Finite (5 / 2)) \<and>
   base_motionCost64 (objective64 ENV_SHERPA (Finite 1) (Finite (1 / 2)) (Finite 2) 3)
       (SherpaState64 (Finite 1) (Finite 2) (Finite 0) 1)
       (SherpaState64 (Finite 6) (Finite 2) (Finite 0) 1) = ([], Inr (Finite 10)) \<and>
   motionCost64 (objective64 ENV_SHERPA (Finite 1) (Finite (1 / 2)) (Finite 2) 3)
       (SherpaState64 (Finite 1) (Finite 2) (Finite 0) 1)
       (SherpaState64 (Finite 6) (Finite 2) (Finite 0) 1) = ([], Inr (Finite 10)) \<and>
   badd (Finite 10) (Finite 0) = Finite 10"
proof -
  let ?O = "objective64 ENV_SHERPA (Finite 1) (Finite (1 / 2)) (Finite 2) 3"
  have r: "bdiv (b_of_int 2) (badd (b_of_int 3) (Finite 1)) = Finite (1 / 2)"
    by (simp add: b_of_int_def fl_numeral badd_Finite bdiv_Finite fl_half)
  have c: "stateCost64 ?O (SherpaState64 (Finite x) (Finite 2) (Finite 0) 1) = ([], Inr (Finite 2))"
    if "0 \<le> x" "x < 10" for x
    using that by (simp add: stateCost64_sherpa_example r bdiv_Finite fl_numeral fl_half fl_1)
  have b: "base_motionCost64 ?O (SherpaState64 (Finite 1) (Finite 2) (Finite 0) 1)
       (SherpaState64 (Finite 6) (Finite 2) (Finite 0) 1) = ([], Inr (Finite 10))"
    by (simp add: base_motionCost64_def c objective64_config example_norm badd_Finite bdiv_Finite
          bmul_Finite fl_numeral)
  have a: "badd (Finite 10) (Finite 0) = Finite 10"
    by (simp add: badd_Finite fl_numeral)
  show ?thesis
    using motionCost64_same_footprint_class [where obj = ?O and t = 10 and c = 1
        and ?x1.0 = "Finite 1" and ?y1.0 = "Finite 2" and ?yaw1.0 = "Finite 0"
        and ?x2.0 = "Finite 6" and ?y2.0 = "Finite 2" and ?yaw2.0 = "Finite 0"
        and grid = "example_grid64\<lparr>getScaleX64 := Finite 1,
           getTraversabilityClass64 := (\<lambda>c. \<lparr>getDrivability64 = Finite (1 / 2)\<rparr>)\<rparr>"]
      b a fp_time_sec64_example(1) [of ENV_SHERPA "Finite 1" "Finite (1 / 2)" "Finite 2"]
      mov_time_sec64_example(1) [of ENV_SHERPA "Finite (1 / 2)" 3]
    by (simp add: objective64_simps objective64_config example_grid64_def is_zero_def bgt_def)
qed

text \<open>
  C7 as stated, for every speed, fails at the speed \<^verbatim>\<open>-0.0\<close>, a speed that is not less
  than 0 and that \<^verbatim>\<open>mSpeed == 0\<close> holds for. For two states of the same footprint class,
  five cells apart, \<^verbatim>\<open>mov_time_sec\<close> is \<open>5 / -0.0\<close>, negative infinity; \<^verbatim>\<open>fp_time_sec\<close>, 0,
  is greater than it, and the cost is replaced by infinity: the comparison that the claim
  says does not trigger does. (The base segment cost is infinite here too: the sum of the
  two sentinels overflows.)
\<close>

theorem motionCost64_same_class_counterexample:
  "\<not> bless MinusZero (Finite 0) \<and> beq MinusZero (Finite 0) \<and> bge MinusZero (Finite 0) \<and>
   fp_time_sec64 (mConfig64 (objective64 ENV_SHERPA (Finite 1) (Finite (1 / 2)) MinusZero 3)) 1 1
     = Finite 0 \<and>
   mov_time_sec64 (mConfig64 (objective64 ENV_SHERPA (Finite 1) (Finite (1 / 2)) MinusZero 3))
     (example_grid64\<lparr>getScaleX64 := Finite 1,
        getTraversabilityClass64 := (\<lambda>c. \<lparr>getDrivability64 = Finite (1 / 2)\<rparr>)\<rparr>)
     (Finite 1) (Finite 2) (Finite 6) (Finite 2) = MinusInfinity \<and>
   bgt (Finite 0) MinusInfinity \<and>
   base_motionCost64 (objective64 ENV_SHERPA (Finite 1) (Finite (1 / 2)) MinusZero 3)
       (SherpaState64 (Finite 1) (Finite 2) (Finite 0) 1)
       (SherpaState64 (Finite 6) (Finite 2) (Finite 0) 1) = ([], Inr Infinity) \<and>
   motionCost64 (objective64 ENV_SHERPA (Finite 1) (Finite (1 / 2)) MinusZero 3)
       (SherpaState64 (Finite 1) (Finite 2) (Finite 0) 1)
       (SherpaState64 (Finite 6) (Finite 2) (Finite 0) 1) = ([], Inr Infinity)"
proof -
  let ?O = "objective64 ENV_SHERPA (Finite 1) (Finite (1 / 2)) MinusZero 3"
  have z: "beq MinusZero (Finite 0)" by (simp add: beq_def)
  have "motionCost64 ?O (SherpaState64 (Finite 1) (Finite 2) (Finite 0) 1)
       (SherpaState64 (Finite 6) (Finite 2) (Finite 0) 1) = ([], Inr Infinity)"
    by (subst motionCost64_sherpa [where grid = "example_grid64\<lparr>getScaleX64 := Finite 1,
           getTraversabilityClass64 := (\<lambda>c. \<lparr>getDrivability64 = Finite (1 / 2)\<rparr>)\<rparr>"])
       (simp_all add: objective64_simps base_motionCost64_stopped_example [OF z]
          fp_time_sec64_example mov_time_sec64_example bgt_def)
  then show ?thesis
    by (simp add: fp_time_sec64_example mov_time_sec64_example bgt_def beq_def bge_def
          base_motionCost64_stopped_example)
qed




end
